theory Spec2Isabelle
  imports Complex_Main
begin

section \<open>Python values and exceptions\<close>

text \<open>
  The three example scripts are straight-line Python. An exception that is raised
  aborts the script, so every operation that can raise returns a sum: \<open>Inl\<close> the
  exception, \<open>Inr\<close> the value. Python floats are read as reals: rounding is not
  modelled.
\<close>

datatype py_error = ZeroDivisionError | TypeError | IndexError | ValueError | KeyError

datatype pyval = PyInt int | PyFloat real

fun to_float :: "pyval \<Rightarrow> real" where
  "to_float (PyInt i) = real_of_int i"
| "to_float (PyFloat x) = x"

fun is_float :: "pyval \<Rightarrow> bool" where
  "is_float (PyInt i) = False"
| "is_float (PyFloat x) = True"

text \<open>\<open>a + b\<close>, \<open>a - b\<close>, \<open>a * b\<close>: an int when both operands are ints, a float otherwise.\<close>

fun py_add :: "pyval \<Rightarrow> pyval \<Rightarrow> pyval" where
  "py_add (PyInt a) (PyInt b) = PyInt (a + b)"
| "py_add a b = PyFloat (to_float a + to_float b)"

fun py_sub :: "pyval \<Rightarrow> pyval \<Rightarrow> pyval" where
  "py_sub (PyInt a) (PyInt b) = PyInt (a - b)"
| "py_sub a b = PyFloat (to_float a - to_float b)"

fun py_mul :: "pyval \<Rightarrow> pyval \<Rightarrow> pyval" where
  "py_mul (PyInt a) (PyInt b) = PyInt (a * b)"
| "py_mul a b = PyFloat (to_float a * to_float b)"

text \<open>\<open>a / b\<close> is true division: it raises on a zero divisor and is a float otherwise,
  also for two ints.\<close>

definition py_truediv :: "pyval \<Rightarrow> pyval \<Rightarrow> py_error + pyval" where
  "py_truediv a b =
     (if to_float b = 0 then Inl ZeroDivisionError
      else Inr (PyFloat (to_float a / to_float b)))"

text \<open>\<open>a % b\<close> and \<open>a // b\<close> on ints: floor semantics (the sign of the remainder follows
  the divisor), which is what \<open>mod\<close> and \<open>div\<close> are on \<open>int\<close>; a zero divisor raises.\<close>

definition py_mod :: "int \<Rightarrow> int \<Rightarrow> py_error + int" where
  "py_mod a b = (if b = 0 then Inl ZeroDivisionError else Inr (a mod b))"

definition py_floordiv :: "int \<Rightarrow> int \<Rightarrow> py_error + int" where
  "py_floordiv a b = (if b = 0 then Inl ZeroDivisionError else Inr (a div b))"

text \<open>\<open>range(n)\<close> takes an int only; a float argument raises TypeError.\<close>

fun py_range :: "pyval \<Rightarrow> py_error + int list" where
  "py_range (PyInt n) = Inr [0..n - 1]"
| "py_range (PyFloat x) = Inl TypeError"

text \<open>\<open>np.linspace(start, stop, num)\<close>: \<open>num\<close> evenly spaced samples with both end
  points; a negative \<open>num\<close> raises ValueError.\<close>

definition linspace :: "real \<Rightarrow> real \<Rightarrow> int \<Rightarrow> py_error + real list" where
  "linspace start stop num =
     (if num < 0 then Inl ValueError
      else Inr (map (\<lambda>i. start + real i * ((stop - start) / real_of_int (num - 1)))
                    [0..<nat num]))"


section \<open>003_MPI_wakefield_simulation.py: the domain decomposition\<close>

text \<open>
  Lines 44 to 56 of the script. \<open>size\<close> and \<open>rank\<close> come from the MPI communicator and
  are Python ints; \<open>zmin\<close> and \<open>zmax\<close> are the z bounds of the imported solids (floats).
  The script's \<open>Nz\<close> after the adjustment, \<open>dz\<close> and \<open>z\<close> are the fields \<open>Nz_adj\<close>,
  \<open>dz_adj\<close> and \<open>z_arr\<close>.
\<close>

record mpi_domain =
  Nz_adj :: int
  dz_adj :: real
  z_arr :: "real list"
  Nz_mpi :: int
  zmin_mpi :: real
  zmax_mpi :: real

definition Nz_cells :: int where
  "Nz_cells = 141"

definition domain_setup :: "int \<Rightarrow> int \<Rightarrow> real \<Rightarrow> real \<Rightarrow> py_error + mpi_domain" where
  "domain_setup mpi_size rank zmin zmax =
     (case py_mod Nz_cells (mpi_size - 1) of
        Inl e \<Rightarrow> Inl e
      | Inr r \<Rightarrow>
          (let nz = Nz_cells + r in
           (case py_truediv (PyFloat (zmax - zmin)) (PyInt nz) of
              Inl e \<Rightarrow> Inl e
            | Inr d \<Rightarrow>
                (case linspace zmin zmax (nz + 1) of
                   Inl e \<Rightarrow> Inl e
                 | Inr zs \<Rightarrow>
                     (case py_floordiv nz (mpi_size - 1) of
                        Inl e \<Rightarrow> Inl e
                      | Inr nzm \<Rightarrow>
                          Inr \<lparr>Nz_adj = nz, dz_adj = to_float d, z_arr = zs, Nz_mpi = nzm,
                               zmin_mpi = real_of_int ((rank - 1) * nzm) * to_float d,
                               zmax_mpi = real_of_int (rank * nzm) * to_float d\<rparr>)))))"

text \<open>
  Lines 60 to 79: rank 0 builds the grid of the whole domain, every other rank the grid
  of its slice. \<open>GridFIT3D\<close> is imported from the package; only the arguments the script
  passes for the z axis are recorded here.
\<close>

record grid_z_args =
  grid_zmin :: real
  grid_zmax :: real
  grid_Nz :: int

definition rank_grid :: "int \<Rightarrow> int \<Rightarrow> real \<Rightarrow> real \<Rightarrow> py_error + grid_z_args" where
  "rank_grid mpi_size rank zmin zmax =
     (case domain_setup mpi_size rank zmin zmax of
        Inl e \<Rightarrow> Inl e
      | Inr d \<Rightarrow>
          Inr (if rank = 0
               then \<lparr>grid_zmin = zmin, grid_zmax = zmax, grid_Nz = Nz_adj d\<rparr>
               else \<lparr>grid_zmin = zmin_mpi d, grid_zmax = zmax_mpi d, grid_Nz = Nz_mpi d\<rparr>))"


text \<open>The rank-local grids of the worker ranks \<open>1 .. size-1\<close>, in rank order.\<close>

definition worker_grids :: "int \<Rightarrow> real \<Rightarrow> real \<Rightarrow> (py_error + grid_z_args) list" where
  "worker_grids mpi_size zmin zmax = map (\<lambda>r. rank_grid mpi_size r zmin zmax) [1..mpi_size - 1]"


section \<open>003_MPI_wakefield_simulation.py: the time loop\<close>

text \<open>
  Lines 151 and 152:
  \<^verbatim>\<open>Nt = 1/solver.dt * (wake.wakelength + wake.ti*wake.v + (solver.z.max()-solver.z.min()))/wake.v\<close>
  The attributes of the solver and of the wake object are set by the package; they are
  taken as numbers of either Python type. The expression parses as
  \<open>((1/dt) * (...)) / v\<close>.
\<close>

definition compute_Nt ::
  "pyval \<Rightarrow> pyval \<Rightarrow> pyval \<Rightarrow> pyval \<Rightarrow> pyval \<Rightarrow> pyval \<Rightarrow> py_error + pyval" where
  "compute_Nt dt wakelength ti v z_max z_min =
     (case py_truediv (PyInt 1) dt of
        Inl e \<Rightarrow> Inl e
      | Inr inv_dt \<Rightarrow>
          py_truediv
            (py_mul inv_dt (py_add (py_add wakelength (py_mul ti v)) (py_sub z_max z_min)))
            v)"

text \<open>The beam of lines 147 to 149, with the parameters its constructor is given.\<close>

record beam =
  beam_q :: real
  beam_sigmaz :: real
  beam_beta :: real
  beam_xsource :: real
  beam_ysource :: real

definition c_light :: real where
  "c_light = 299792458"

text \<open>
  Modelled from the spec: \<open>Beam.update_mpi\<close> is imported from \<open>wakis.sources\<close> and is
  not among the sources. Section 4.4 of the spec gives its contract: from the bunch
  charge, the longitudinal RMS length, the relativistic beta and the transverse offset
  it produces the current density to inject into J at a given absolute time and
  longitudinal grid offset, with a Gaussian longitudinal profile. The bunch centre
  enters at \<open>zmin\<close> after the injection time offset \<open>8.53 * sigmaz / c_light\<close> that
  line 95 of the script quotes as the default, and moves with speed \<open>beta * c_light\<close>.
\<close>

definition gaussian :: "real \<Rightarrow> real \<Rightarrow> real" where
  "gaussian sigma s = 1 / sqrt (2 * pi * sigma\<^sup>2) * exp (- (s\<^sup>2) / (2 * sigma\<^sup>2))"

definition beam_current :: "beam \<Rightarrow> real \<Rightarrow> real \<Rightarrow> real list \<Rightarrow> real list" where
  "beam_current b t zmin z =
     (let v = beam_beta b * c_light;
          tinj = 8.53 * beam_sigmaz b / c_light
      in map (\<lambda>zk. beam_q b * v * gaussian (beam_sigmaz b) (zk - zmin - v * (t - tinj))) z)"

text \<open>
  Modelled from the spec: the solver is the package's \<open>SolverFIT3D\<close>. Section 3 of the
  spec gives its state: the field arrays, the current density J and the time state (a
  step count and the elapsed time). The current density is kept along the beam line,
  where the source writes it.
\<close>

record solver_state =
  step_count :: nat
  elapsed :: real
  Jz_line :: "real list"

definition update_mpi :: "beam \<Rightarrow> solver_state \<Rightarrow> real \<Rightarrow> real \<Rightarrow> real list \<Rightarrow> solver_state" where
  "update_mpi b s t zmin z = s\<lparr>Jz_line := beam_current b t zmin z\<rparr>"

text \<open>
  Lines 154 to 160, the loop
  \<^verbatim>\<open>for n in tqdm(range(Nt)):
      beam.update_mpi(solver, n*solver.dt, zmin, z)
      solver.one_step()
      #Communicate slices [TODO]\<close>
  The loop threads the solver state and keeps a log of the calls it makes on the solver:
  the source injection with its time argument and the current it wrote, the step, and
  an exchange of boundary slices with a neighbour rank. \<open>one_step\<close> is the package's and
  is a parameter.
\<close>

datatype call = Update_mpi real "real list" | One_step | Exchange_slices

fun time_loop ::
  "beam \<Rightarrow> (solver_state \<Rightarrow> solver_state) \<Rightarrow> real \<Rightarrow> real \<Rightarrow> real list \<Rightarrow> int list
     \<Rightarrow> solver_state \<times> call list \<Rightarrow> solver_state \<times> call list" where
  "time_loop b one_step dt zmin z [] (s, calls) = (s, calls)"
| "time_loop b one_step dt zmin z (n # ns) (s, calls) =
     (let t = real_of_int n * dt;
          s1 = update_mpi b s t zmin z;
          s2 = one_step s1
      in time_loop b one_step dt zmin z ns (s2, calls @ [Update_mpi t (Jz_line s1), One_step]))"

text \<open>Lines 151 to 160 together: the exception that ended the run, if any, the solver
  state and the log.\<close>

definition run_time_loop ::
  "beam \<Rightarrow> (solver_state \<Rightarrow> solver_state) \<Rightarrow> pyval \<Rightarrow> pyval \<Rightarrow> pyval \<Rightarrow> pyval
     \<Rightarrow> pyval \<Rightarrow> pyval \<Rightarrow> real \<Rightarrow> real list \<Rightarrow> solver_state
     \<Rightarrow> py_error option \<times> solver_state \<times> call list" where
  "run_time_loop b one_step dt wakelength ti v z_max z_min zmin z s =
     (case compute_Nt dt wakelength ti v z_max z_min of
        Inl e \<Rightarrow> (Some e, s, [])
      | Inr Nt \<Rightarrow>
          (case py_range Nt of
             Inl e \<Rightarrow> (Some e, s, [])
           | Inr ns \<Rightarrow> (None, time_loop b one_step (to_float dt) zmin z ns (s, []))))"


section \<open>script\_cube\_cav\_fit.py and script\_noeb\_fit.py: the grids\<close>

text \<open>
  Lines 22 to 40, the same in both scripts: a cube of side \<open>L = 1.\<close> with \<open>N = 25\<close> cells
  per axis. \<open>L / Nx\<close> divides a float by an int. The lower and upper bounds of all three
  axes are offset by \<open>dx / 2\<close> (the scripts write \<open>dx\<close> on the y and z axes too).
\<close>

definition cube_L :: real where
  "cube_L = 1"

definition cube_N :: int where
  "cube_N = 25"

definition cube_dx :: real where
  "cube_dx = cube_L / real_of_int cube_N"

definition cube_dy :: real where
  "cube_dy = cube_L / real_of_int cube_N"

definition cube_dz :: real where
  "cube_dz = cube_L / real_of_int cube_N"

definition cube_xmin :: real where
  "cube_xmin = - cube_L / 2 + cube_dx / 2"

definition cube_xmax :: real where
  "cube_xmax = cube_L / 2 + cube_dx / 2"

definition cube_ymin :: real where
  "cube_ymin = - cube_L / 2 + cube_dx / 2"

definition cube_ymax :: real where
  "cube_ymax = cube_L / 2 + cube_dx / 2"

definition cube_zmin :: real where
  "cube_zmin = - cube_L / 2 + cube_dx / 2"

definition cube_zmax :: real where
  "cube_zmax = cube_L / 2 + cube_dx / 2"

text \<open>
  \<open>Grid3D\<close> and \<open>noConductor\<close> are imported from modules that are not among the
  sources. A grid is recorded by the arguments its constructor is called with, and by
  the three face-area arrays the script reads and overwrites; what the constructor
  puts into them is not known, so they are a parameter wherever they occur. The
  scripts pass the empty assembly \<open>noConductor()\<close>; \<open>OtherConductors\<close> stands for any
  other assembly of the module.
\<close>

datatype conductors = noConductor | OtherConductors

type_synonym array3 = "real list list list"

record grid3d =
  grid_xmin :: real
  grid_xmax :: real
  grid_ymin :: real
  grid_ymax :: real
  grid_zlo :: real
  grid_zhi :: real
  grid_Nx :: int
  grid_Ny :: int
  grid_Nzc :: int
  grid_conductors :: conductors
  grid_sol_type :: string
  grid_Sxy :: array3
  grid_Szx :: array3
  grid_Syz :: array3

definition Grid3D ::
  "array3 \<times> array3 \<times> array3 \<Rightarrow> real \<Rightarrow> real \<Rightarrow> real \<Rightarrow> real \<Rightarrow> real \<Rightarrow> real \<Rightarrow> int \<Rightarrow> int \<Rightarrow> int
     \<Rightarrow> conductors \<Rightarrow> string \<Rightarrow> grid3d" where
  "Grid3D areas x0 x1 y0 y1 z0 z1 nx ny nz cond sol_type =
     \<lparr>grid_xmin = x0, grid_xmax = x1, grid_ymin = y0, grid_ymax = y1,
      grid_zlo = z0, grid_zhi = z1, grid_Nx = nx, grid_Ny = ny, grid_Nzc = nz,
      grid_conductors = cond, grid_sol_type = sol_type,
      grid_Sxy = fst areas, grid_Szx = fst (snd areas), grid_Syz = snd (snd areas)\<rparr>"

text \<open>script\_noeb\_fit.py, lines 46 and 47: the primary grid and the dual grid.\<close>

definition gridFIT :: "array3 \<times> array3 \<times> array3 \<Rightarrow> grid3d" where
  "gridFIT areas =
     Grid3D areas cube_xmin cube_xmax cube_ymin cube_ymax cube_zmin cube_zmax
       cube_N cube_N cube_N noConductor ''FIT''"

definition tgridFIT :: "array3 \<times> array3 \<times> array3 \<Rightarrow> grid3d" where
  "tgridFIT areas =
     Grid3D areas (cube_xmin + cube_dx / 2) (cube_xmax + cube_dx / 2)
       (cube_ymin + cube_dy / 2) (cube_ymax + cube_dy / 2)
       (cube_zmin + cube_dz / 2) (cube_zmax + cube_dz / 2)
       cube_N cube_N cube_N noConductor ''FIT''"

text \<open>The cell size of a grid along each axis, from its own bounds and cell counts.\<close>

definition cell_x :: "grid3d \<Rightarrow> real" where
  "cell_x g = (grid_xmax g - grid_xmin g) / real_of_int (grid_Nx g)"

definition cell_y :: "grid3d \<Rightarrow> real" where
  "cell_y g = (grid_ymax g - grid_ymin g) / real_of_int (grid_Ny g)"

definition cell_z :: "grid3d \<Rightarrow> real" where
  "cell_z g = (grid_zhi g - grid_zlo g) / real_of_int (grid_Nzc g)"

text \<open>
  script\_cube\_cav\_fit.py, lines 52 to 55: the comparison grid and the overwriting of
  its face areas, \<^verbatim>\<open>gridFDTD.Sxy = np.ones_like(gridFDTD.Sxy)*dx*dy\<close> and likewise
  for \<open>Szx\<close> with \<open>dx*dz\<close> and \<open>Syz\<close> with \<open>dz*dy\<close>. \<open>np.ones_like\<close> keeps the shape;
  the two products are taken entry by entry, from left to right.
\<close>

definition ones_like :: "array3 \<Rightarrow> array3" where
  "ones_like a = map (map (map (\<lambda>x. 1))) a"

definition times_scalar :: "array3 \<Rightarrow> real \<Rightarrow> array3" where
  "times_scalar a c = map (map (map (\<lambda>x. x * c))) a"

definition gridFDTD :: "array3 \<times> array3 \<times> array3 \<Rightarrow> grid3d" where
  "gridFDTD areas =
     Grid3D areas cube_xmin cube_xmax cube_ymin cube_ymax cube_zmin cube_zmax
       cube_N cube_N cube_N noConductor ''FDTD''"

definition overwrite_areas :: "grid3d \<Rightarrow> grid3d" where
  "overwrite_areas g =
     (let g1 = g\<lparr>grid_Sxy := times_scalar (times_scalar (ones_like (grid_Sxy g)) cube_dx) cube_dy\<rparr>;
          g2 = g1\<lparr>grid_Szx := times_scalar (times_scalar (ones_like (grid_Szx g1)) cube_dx) cube_dz\<rparr>
      in g2\<lparr>grid_Syz := times_scalar (times_scalar (ones_like (grid_Syz g2)) cube_dz) cube_dy\<rparr>)"

text \<open>The shape of an array, and its entry at an index triple inside the shape.\<close>

definition shape :: "array3 \<Rightarrow> nat list list" where
  "shape a = map (map length) a"

definition in_shape :: "array3 \<Rightarrow> nat \<Rightarrow> nat \<Rightarrow> nat \<Rightarrow> bool" where
  "in_shape a i j k \<longleftrightarrow> i < length a \<and> j < length (a ! i) \<and> k < length (a ! i ! j)"


text \<open>
  script\_noeb\_fit.py, lines 46 to 55 and 137 to 143. The two grids are built once,
  before the solvers; line 49, \<^verbatim>\<open>solverFIT = SolverFIT3D(gridFIT, tgridFIT)\<close>,
  hands both to the FIT solver, line 52 hands the comparison grid to the FDTD solver,
  lines 54 and 55 seed the two solvers, and the loop
  \<^verbatim>\<open>for n in tqdm(range(Nt)): solverFIT.one_step(); solverFDTD.one_step(); ...\<close>
  runs \<open>Nt = 50\<close> iterations that call the solvers and plot. The script's variables
  are the fields of an environment. The constructors, the seeding and the steps of the
  two solvers belong to modules that are not among the sources and are parameters,
  acting on solver states of any type.
\<close>

record ('s, 't) noeb_env =
  env_gridFIT :: grid3d
  env_tgridFIT :: grid3d
  env_gridFDTD :: grid3d
  env_solverFIT :: 's
  env_solverFDTD :: 't

definition noeb_Nt :: nat where
  "noeb_Nt = 50"

definition noeb_setup ::
  "array3 \<times> array3 \<times> array3 \<Rightarrow> array3 \<times> array3 \<times> array3 \<Rightarrow> array3 \<times> array3 \<times> array3
     \<Rightarrow> (grid3d \<Rightarrow> grid3d \<Rightarrow> 's) \<Rightarrow> (grid3d \<Rightarrow> 't) \<Rightarrow> ('s \<Rightarrow> 's) \<Rightarrow> ('t \<Rightarrow> 't)
     \<Rightarrow> ('s, 't) noeb_env" where
  "noeb_setup a a' a'' newFIT newFDTD seedFIT seedFDTD =
     (let g = gridFIT a;
          tg = tgridFIT a';
          solverFIT = newFIT g tg;
          gd = gridFDTD a'';
          solverFDTD = newFDTD gd
      in \<lparr>env_gridFIT = g, env_tgridFIT = tg, env_gridFDTD = gd,
          env_solverFIT = seedFIT solverFIT, env_solverFDTD = seedFDTD solverFDTD\<rparr>)"

fun noeb_loop ::
  "('s \<Rightarrow> 's) \<Rightarrow> ('t \<Rightarrow> 't) \<Rightarrow> nat \<Rightarrow> ('s, 't) noeb_env \<Rightarrow> ('s, 't) noeb_env" where
  "noeb_loop stepFIT stepFDTD 0 env = env"
| "noeb_loop stepFIT stepFDTD (Suc n) env =
     noeb_loop stepFIT stepFDTD n
       (env\<lparr>env_solverFIT := stepFIT (env_solverFIT env),
            env_solverFDTD := stepFDTD (env_solverFDTD env)\<rparr>)"

definition noeb_script ::
  "array3 \<times> array3 \<times> array3 \<Rightarrow> array3 \<times> array3 \<times> array3 \<Rightarrow> array3 \<times> array3 \<times> array3
     \<Rightarrow> (grid3d \<Rightarrow> grid3d \<Rightarrow> 's) \<Rightarrow> (grid3d \<Rightarrow> 't) \<Rightarrow> ('s \<Rightarrow> 's) \<Rightarrow> ('t \<Rightarrow> 't)
     \<Rightarrow> ('s \<Rightarrow> 's) \<Rightarrow> ('t \<Rightarrow> 't) \<Rightarrow> ('s, 't) noeb_env" where
  "noeb_script a a' a'' newFIT newFDTD seedFIT seedFDTD stepFIT stepFDTD =
     noeb_loop stepFIT stepFDTD noeb_Nt
       (noeb_setup a a' a'' newFIT newFDTD seedFIT seedFDTD)"


section \<open>The field container of the cube scripts\<close>

text \<open>
  Modelled from the spec: the class \<open>Field\<close> (module \<open>field\<close>) behind \<open>solver.E\<close>,
  \<open>solver.H\<close> and \<open>solver.J\<close> is not among the sources. Section 3 of the spec gives
  the field state as three-component arrays over the grid's index space, zero at
  construction; section 4.2 gives the access: read and write of a single scalar
  component at a grid coordinate and axis label, where an out-of-range coordinate or an
  unknown axis label is a reported error, not a silent clamp. The labels are the
  strings the scripts pass (\<open>'x'\<close>, \<open>'y'\<close>, \<open>'z'\<close>); the grid's index range along an
  axis with \<open>N\<close> cells is \<open>0 .. N-1\<close>. A component is a function on index triples; its
  values outside the range are never read through the access functions.
\<close>

type_synonym idx = "int \<times> int \<times> int"

datatype axis = AxisX | AxisY | AxisZ

record field3d =
  fld_Nx :: int
  fld_Ny :: int
  fld_Nz :: int
  fld_x :: "idx \<Rightarrow> real"
  fld_y :: "idx \<Rightarrow> real"
  fld_z :: "idx \<Rightarrow> real"

definition Field3D :: "int \<Rightarrow> int \<Rightarrow> int \<Rightarrow> field3d" where
  "Field3D nx ny nz =
     \<lparr>fld_Nx = nx, fld_Ny = ny, fld_Nz = nz,
      fld_x = (\<lambda>p. 0), fld_y = (\<lambda>p. 0), fld_z = (\<lambda>p. 0)\<rparr>"

definition axis_of_label :: "string \<Rightarrow> axis option" where
  "axis_of_label l =
     (if l = ''x'' then Some AxisX
      else if l = ''y'' then Some AxisY
      else if l = ''z'' then Some AxisZ
      else None)"

fun in_range :: "field3d \<Rightarrow> idx \<Rightarrow> bool" where
  "in_range f (i, j, k) \<longleftrightarrow>
     0 \<le> i \<and> i < fld_Nx f \<and> 0 \<le> j \<and> j < fld_Ny f \<and> 0 \<le> k \<and> k < fld_Nz f"

fun component :: "field3d \<Rightarrow> axis \<Rightarrow> idx \<Rightarrow> real" where
  "component f AxisX p = fld_x f p"
| "component f AxisY p = fld_y f p"
| "component f AxisZ p = fld_z f p"

fun set_component :: "field3d \<Rightarrow> axis \<Rightarrow> idx \<Rightarrow> real \<Rightarrow> field3d" where
  "set_component f AxisX p v = f\<lparr>fld_x := (fld_x f)(p := v)\<rparr>"
| "set_component f AxisY p v = f\<lparr>fld_y := (fld_y f)(p := v)\<rparr>"
| "set_component f AxisZ p v = f\<lparr>fld_z := (fld_z f)(p := v)\<rparr>"

definition getitem :: "field3d \<Rightarrow> idx \<Rightarrow> string \<Rightarrow> py_error + real" where
  "getitem f p l =
     (case axis_of_label l of
        None \<Rightarrow> Inl KeyError
      | Some a \<Rightarrow> if in_range f p then Inr (component f a p) else Inl IndexError)"

definition setitem :: "field3d \<Rightarrow> idx \<Rightarrow> string \<Rightarrow> real \<Rightarrow> py_error + field3d" where
  "setitem f p l v =
     (case axis_of_label l of
        None \<Rightarrow> Inl KeyError
      | Some a \<Rightarrow> if in_range f p then Inr (set_component f a p v) else Inl IndexError)"


section \<open>The solvers of the cube scripts\<close>

text \<open>
  Modelled from the spec: the grid geometry the FIT solver reads is computed by
  \<open>Grid3D\<close>, which is not among the sources. Section 3 of the spec lists edge lengths
  and face areas (possibly cut by a conductor) per mesh element; the glossary has FIT
  discretise Maxwell's equations in integral form with fractional faces and edges, and
  section 9 names the half-cell-shifted dual grid. The geometry holds, per index, the
  lengths of the primary edges, the areas of the primary faces, the lengths of the
  dual edges (one through each primary face) and the areas of the dual faces (one
  around each primary edge). With no conductor nothing is cut and every element has its
  nominal size.
\<close>

record geometry =
  geo_lx :: "idx \<Rightarrow> real"
  geo_ly :: "idx \<Rightarrow> real"
  geo_lz :: "idx \<Rightarrow> real"
  geo_Syz :: "idx \<Rightarrow> real"
  geo_Szx :: "idx \<Rightarrow> real"
  geo_Sxy :: "idx \<Rightarrow> real"
  geo_tlx :: "idx \<Rightarrow> real"
  geo_tly :: "idx \<Rightarrow> real"
  geo_tlz :: "idx \<Rightarrow> real"
  geo_tSyz :: "idx \<Rightarrow> real"
  geo_tSzx :: "idx \<Rightarrow> real"
  geo_tSxy :: "idx \<Rightarrow> real"

definition uncut_geometry :: "real \<Rightarrow> real \<Rightarrow> real \<Rightarrow> geometry" where
  "uncut_geometry dx dy dz =
     \<lparr>geo_lx = (\<lambda>p. dx), geo_ly = (\<lambda>p. dy), geo_lz = (\<lambda>p. dz),
      geo_Syz = (\<lambda>p. dy * dz), geo_Szx = (\<lambda>p. dz * dx), geo_Sxy = (\<lambda>p. dx * dy),
      geo_tlx = (\<lambda>p. dx), geo_tly = (\<lambda>p. dy), geo_tlz = (\<lambda>p. dz),
      geo_tSyz = (\<lambda>p. dy * dz), geo_tSzx = (\<lambda>p. dz * dx), geo_tSxy = (\<lambda>p. dx * dy)\<rparr>"


text \<open>
  Modelled from the spec: the solver classes \<open>SolverFIT3D\<close> and \<open>EMSolver3D\<close> are not
  among the sources. Sections 3 and 4.2 of the spec give the state (the fields E, H and
  J, the time) and the time step with the material coefficients of a uniform medium.
\<close>

record solver =
  sol_dt :: real
  sol_eps :: real
  sol_mu :: real
  sol_sigma :: real
  sol_E :: field3d
  sol_H :: field3d
  sol_J :: field3d
  sol_time :: real


text \<open>
  Modelled from the spec: \<open>SolverFIT3D.one_step\<close>, section 4.2 of the spec. (1) H is
  updated from the discrete curl of E scaled by \<open>- dt / mu\<close> over the face area: in
  integral form, the circulation of E along the edges of the face, each edge with its
  length, divided by the area of the face. (2) The PEC boundary forces the tangential E
  to zero on the boundary faces. (3) E is updated from the discrete curl of H (the
  circulation along the dual edges around the edge, over the dual face area) minus the
  conduction loss \<open>sigma * E\<close> minus the injected J, scaled by \<open>dt / eps\<close>. (4) The
  time advances by \<open>dt\<close>.
\<close>

fun circ_x :: "geometry \<Rightarrow> field3d \<Rightarrow> idx \<Rightarrow> real" where
  "circ_x g e (i, j, k) =
     fld_z e (i, j + 1, k) * geo_lz g (i, j + 1, k) - fld_z e (i, j, k) * geo_lz g (i, j, k)
     - (fld_y e (i, j, k + 1) * geo_ly g (i, j, k + 1) - fld_y e (i, j, k) * geo_ly g (i, j, k))"

fun circ_y :: "geometry \<Rightarrow> field3d \<Rightarrow> idx \<Rightarrow> real" where
  "circ_y g e (i, j, k) =
     fld_x e (i, j, k + 1) * geo_lx g (i, j, k + 1) - fld_x e (i, j, k) * geo_lx g (i, j, k)
     - (fld_z e (i + 1, j, k) * geo_lz g (i + 1, j, k) - fld_z e (i, j, k) * geo_lz g (i, j, k))"

fun circ_z :: "geometry \<Rightarrow> field3d \<Rightarrow> idx \<Rightarrow> real" where
  "circ_z g e (i, j, k) =
     fld_y e (i + 1, j, k) * geo_ly g (i + 1, j, k) - fld_y e (i, j, k) * geo_ly g (i, j, k)
     - (fld_x e (i, j + 1, k) * geo_lx g (i, j + 1, k) - fld_x e (i, j, k) * geo_lx g (i, j, k))"

fun dual_circ_x :: "geometry \<Rightarrow> field3d \<Rightarrow> idx \<Rightarrow> real" where
  "dual_circ_x g h (i, j, k) =
     fld_z h (i, j, k) * geo_tlz g (i, j, k) - fld_z h (i, j - 1, k) * geo_tlz g (i, j - 1, k)
     - (fld_y h (i, j, k) * geo_tly g (i, j, k) - fld_y h (i, j, k - 1) * geo_tly g (i, j, k - 1))"

fun dual_circ_y :: "geometry \<Rightarrow> field3d \<Rightarrow> idx \<Rightarrow> real" where
  "dual_circ_y g h (i, j, k) =
     fld_x h (i, j, k) * geo_tlx g (i, j, k) - fld_x h (i, j, k - 1) * geo_tlx g (i, j, k - 1)
     - (fld_z h (i, j, k) * geo_tlz g (i, j, k) - fld_z h (i - 1, j, k) * geo_tlz g (i - 1, j, k))"

fun dual_circ_z :: "geometry \<Rightarrow> field3d \<Rightarrow> idx \<Rightarrow> real" where
  "dual_circ_z g h (i, j, k) =
     fld_y h (i, j, k) * geo_tly g (i, j, k) - fld_y h (i - 1, j, k) * geo_tly g (i - 1, j, k)
     - (fld_x h (i, j, k) * geo_tlx g (i, j, k) - fld_x h (i, j - 1, k) * geo_tlx g (i, j - 1, k))"

definition fit_update_H :: "geometry \<Rightarrow> solver \<Rightarrow> solver" where
  "fit_update_H g s =
     (let c = sol_dt s / sol_mu s; e = sol_E s; h = sol_H s in
      s\<lparr>sol_H := h
        \<lparr>fld_x := (\<lambda>p. if in_range h p then fld_x h p - c * (circ_x g e p / geo_Syz g p)
                        else fld_x h p),
         fld_y := (\<lambda>p. if in_range h p then fld_y h p - c * (circ_y g e p / geo_Szx g p)
                        else fld_y h p),
         fld_z := (\<lambda>p. if in_range h p then fld_z h p - c * (circ_z g e p / geo_Sxy g p)
                        else fld_z h p)\<rparr>\<rparr>)"

fun on_boundary_x :: "field3d \<Rightarrow> idx \<Rightarrow> bool" where
  "on_boundary_x f (i, j, k) \<longleftrightarrow> j = 0 \<or> j = fld_Ny f \<or> k = 0 \<or> k = fld_Nz f"

fun on_boundary_y :: "field3d \<Rightarrow> idx \<Rightarrow> bool" where
  "on_boundary_y f (i, j, k) \<longleftrightarrow> i = 0 \<or> i = fld_Nx f \<or> k = 0 \<or> k = fld_Nz f"

fun on_boundary_z :: "field3d \<Rightarrow> idx \<Rightarrow> bool" where
  "on_boundary_z f (i, j, k) \<longleftrightarrow> i = 0 \<or> i = fld_Nx f \<or> j = 0 \<or> j = fld_Ny f"

definition apply_pec :: "solver \<Rightarrow> solver" where
  "apply_pec s =
     (let e = sol_E s in
      s\<lparr>sol_E := e
        \<lparr>fld_x := (\<lambda>p. if on_boundary_x e p then 0 else fld_x e p),
         fld_y := (\<lambda>p. if on_boundary_y e p then 0 else fld_y e p),
         fld_z := (\<lambda>p. if on_boundary_z e p then 0 else fld_z e p)\<rparr>\<rparr>)"

definition fit_update_E :: "geometry \<Rightarrow> solver \<Rightarrow> solver" where
  "fit_update_E g s =
     (let c = sol_dt s / sol_eps s; e = sol_E s; h = sol_H s; cur = sol_J s in
      s\<lparr>sol_E := e
        \<lparr>fld_x := (\<lambda>p. if in_range e p
                        then fld_x e p + c * (dual_circ_x g h p / geo_tSyz g p
                                              - sol_sigma s * fld_x e p - fld_x cur p)
                        else fld_x e p),
         fld_y := (\<lambda>p. if in_range e p
                        then fld_y e p + c * (dual_circ_y g h p / geo_tSzx g p
                                              - sol_sigma s * fld_y e p - fld_y cur p)
                        else fld_y e p),
         fld_z := (\<lambda>p. if in_range e p
                        then fld_z e p + c * (dual_circ_z g h p / geo_tSxy g p
                                              - sol_sigma s * fld_z e p - fld_z cur p)
                        else fld_z e p)\<rparr>\<rparr>)"

definition fit_one_step :: "geometry \<Rightarrow> solver \<Rightarrow> solver" where
  "fit_one_step g s =
     (let s1 = fit_update_H g s; s2 = apply_pec s1; s3 = fit_update_E g s2
      in s3\<lparr>sol_time := sol_time s3 + sol_dt s3\<rparr>)"


text \<open>
  Modelled from the spec: \<open>EMSolver3D.one_step\<close> with the type \<open>'FDTD'\<close>, the classical
  full-cell solver of the glossary: the same leapfrog step with the curls written as
  difference quotients over the nominal cell sizes.
\<close>

fun curl_x :: "real \<Rightarrow> real \<Rightarrow> real \<Rightarrow> field3d \<Rightarrow> idx \<Rightarrow> real" where
  "curl_x dx dy dz e (i, j, k) =
     (fld_z e (i, j + 1, k) - fld_z e (i, j, k)) / dy
     - (fld_y e (i, j, k + 1) - fld_y e (i, j, k)) / dz"

fun curl_y :: "real \<Rightarrow> real \<Rightarrow> real \<Rightarrow> field3d \<Rightarrow> idx \<Rightarrow> real" where
  "curl_y dx dy dz e (i, j, k) =
     (fld_x e (i, j, k + 1) - fld_x e (i, j, k)) / dz
     - (fld_z e (i + 1, j, k) - fld_z e (i, j, k)) / dx"

fun curl_z :: "real \<Rightarrow> real \<Rightarrow> real \<Rightarrow> field3d \<Rightarrow> idx \<Rightarrow> real" where
  "curl_z dx dy dz e (i, j, k) =
     (fld_y e (i + 1, j, k) - fld_y e (i, j, k)) / dx
     - (fld_x e (i, j + 1, k) - fld_x e (i, j, k)) / dy"

fun back_curl_x :: "real \<Rightarrow> real \<Rightarrow> real \<Rightarrow> field3d \<Rightarrow> idx \<Rightarrow> real" where
  "back_curl_x dx dy dz h (i, j, k) =
     (fld_z h (i, j, k) - fld_z h (i, j - 1, k)) / dy
     - (fld_y h (i, j, k) - fld_y h (i, j, k - 1)) / dz"

fun back_curl_y :: "real \<Rightarrow> real \<Rightarrow> real \<Rightarrow> field3d \<Rightarrow> idx \<Rightarrow> real" where
  "back_curl_y dx dy dz h (i, j, k) =
     (fld_x h (i, j, k) - fld_x h (i, j, k - 1)) / dz
     - (fld_z h (i, j, k) - fld_z h (i - 1, j, k)) / dx"

fun back_curl_z :: "real \<Rightarrow> real \<Rightarrow> real \<Rightarrow> field3d \<Rightarrow> idx \<Rightarrow> real" where
  "back_curl_z dx dy dz h (i, j, k) =
     (fld_y h (i, j, k) - fld_y h (i - 1, j, k)) / dx
     - (fld_x h (i, j, k) - fld_x h (i, j - 1, k)) / dy"

definition fdtd_update_H :: "real \<Rightarrow> real \<Rightarrow> real \<Rightarrow> solver \<Rightarrow> solver" where
  "fdtd_update_H dx dy dz s =
     (let c = sol_dt s / sol_mu s; e = sol_E s; h = sol_H s in
      s\<lparr>sol_H := h
        \<lparr>fld_x := (\<lambda>p. if in_range h p then fld_x h p - c * curl_x dx dy dz e p else fld_x h p),
         fld_y := (\<lambda>p. if in_range h p then fld_y h p - c * curl_y dx dy dz e p else fld_y h p),
         fld_z := (\<lambda>p. if in_range h p then fld_z h p - c * curl_z dx dy dz e p else fld_z h p)\<rparr>\<rparr>)"

definition fdtd_update_E :: "real \<Rightarrow> real \<Rightarrow> real \<Rightarrow> solver \<Rightarrow> solver" where
  "fdtd_update_E dx dy dz s =
     (let c = sol_dt s / sol_eps s; e = sol_E s; h = sol_H s; cur = sol_J s in
      s\<lparr>sol_E := e
        \<lparr>fld_x := (\<lambda>p. if in_range e p
                        then fld_x e p + c * (back_curl_x dx dy dz h p
                                              - sol_sigma s * fld_x e p - fld_x cur p)
                        else fld_x e p),
         fld_y := (\<lambda>p. if in_range e p
                        then fld_y e p + c * (back_curl_y dx dy dz h p
                                              - sol_sigma s * fld_y e p - fld_y cur p)
                        else fld_y e p),
         fld_z := (\<lambda>p. if in_range e p
                        then fld_z e p + c * (back_curl_z dx dy dz h p
                                              - sol_sigma s * fld_z e p - fld_z cur p)
                        else fld_z e p)\<rparr>\<rparr>)"

definition fdtd_one_step :: "real \<Rightarrow> real \<Rightarrow> real \<Rightarrow> solver \<Rightarrow> solver" where
  "fdtd_one_step dx dy dz s =
     (let s1 = fdtd_update_H dx dy dz s; s2 = apply_pec s1; s3 = fdtd_update_E dx dy dz s2
      in s3\<lparr>sol_time := sol_time s3 + sol_dt s3\<rparr>)"


text \<open>The loops of the two scripts call \<open>one_step\<close> once per iteration.\<close>

fun run_steps :: "(solver \<Rightarrow> solver) \<Rightarrow> nat \<Rightarrow> solver \<Rightarrow> solver" where
  "run_steps one_step 0 s = s"
| "run_steps one_step (Suc n) s = run_steps one_step n (one_step s)"


text \<open>
  Modelled from the spec: the constructor of \<open>SolverFIT3D\<close> is not among the sources.
  By section 3 of the spec it allocates the fields from the grid's dimensions and
  initialises them to zero; the cube is vacuum, so the conductivity is zero.
\<close>

definition SolverFIT3D :: "real \<Rightarrow> real \<Rightarrow> real \<Rightarrow> solver" where
  "SolverFIT3D dt eps mu =
     \<lparr>sol_dt = dt, sol_eps = eps, sol_mu = mu, sol_sigma = 0,
      sol_E = Field3D cube_N cube_N cube_N, sol_H = Field3D cube_N cube_N cube_N,
      sol_J = Field3D cube_N cube_N cube_N, sol_time = 0\<rparr>"


section \<open>Domain setup: results\<close>

lemma py_mod_zero: "py_mod a 0 = Inl ZeroDivisionError"
  by (simp add: py_mod_def)

lemma adjusted_cells_positive:
  assumes "2 \<le> mpi_size"
  shows "0 < Nz_cells + Nz_cells mod (mpi_size - 1)"
proof -
  have "0 \<le> Nz_cells mod (mpi_size - 1)"
    using assms by simp
  then show ?thesis
    by (simp add: Nz_cells_def)
qed

lemma domain_setup_ok:
  assumes "2 \<le> mpi_size"
  shows "\<exists>d. domain_setup mpi_size rank zmin zmax = Inr d
           \<and> Nz_adj d = Nz_cells + Nz_cells mod (mpi_size - 1)
           \<and> Nz_mpi d = Nz_adj d div (mpi_size - 1)
           \<and> dz_adj d = (zmax - zmin) / real_of_int (Nz_adj d)
           \<and> zmin_mpi d = real_of_int ((rank - 1) * Nz_mpi d) * dz_adj d
           \<and> zmax_mpi d = real_of_int (rank * Nz_mpi d) * dz_adj d"
proof -
  have pos: "0 < Nz_cells + Nz_cells mod (mpi_size - 1)"
    using assms by (rule adjusted_cells_positive)
  have ne: "mpi_size - 1 \<noteq> 0"
    using assms by simp
  show ?thesis
    using pos ne
    by (simp add: domain_setup_def py_mod_def py_truediv_def py_floordiv_def linspace_def
        Let_def)
qed

text \<open>
  C10. Run with a single process, the script raises ZeroDivisionError at
  \<open>Nz % (size-1)\<close>, whatever the rank and the bounds, so no grid is built (the grid
  construction of the rank gets the same exception); with two or more processes the
  domain setup returns and the rank's grid arguments exist.
\<close>

theorem single_process_raises:
  "domain_setup 1 rank zmin zmax = Inl ZeroDivisionError
   \<and> rank_grid 1 rank zmin zmax = Inl ZeroDivisionError
   \<and> (2 \<le> mpi_size \<longrightarrow>
        (\<exists>d g. domain_setup mpi_size rank zmin zmax = Inr d
             \<and> rank_grid mpi_size rank zmin zmax = Inr g))"
proof -
  have one: "domain_setup 1 rank zmin zmax = Inl ZeroDivisionError"
    by (simp add: domain_setup_def py_mod_def)
  have grid1: "rank_grid 1 rank zmin zmax = Inl ZeroDivisionError"
    by (simp add: rank_grid_def one)
  have more: "\<exists>d g. domain_setup mpi_size rank zmin zmax = Inr d
             \<and> rank_grid mpi_size rank zmin zmax = Inr g" if two: "2 \<le> mpi_size"
  proof -
    from domain_setup_ok [OF two]
    obtain d where "domain_setup mpi_size rank zmin zmax = Inr d"
      by blast
    then show ?thesis
      by (simp add: rank_grid_def)
  qed
  show ?thesis
    using one grid1 more by blast
qed

theorem single_process_raises_witness:
  "domain_setup 1 1 0 1 = Inl ZeroDivisionError
   \<and> (\<exists>d g. domain_setup 2 1 0 1 = Inr d \<and> rank_grid 2 1 0 1 = Inr g)"
  using single_process_raises [where rank = 1 and zmin = 0 and zmax = 1 and mpi_size = 2]
  by (simp add: domain_setup_def py_mod_def)

lemma worker_slices_contiguous:
  assumes "2 \<le> mpi_size"
    and "domain_setup mpi_size r zmin zmax = Inr d"
    and "domain_setup mpi_size (r + 1) zmin zmax = Inr d'"
  shows "zmax_mpi d = zmin_mpi d'"
proof -
  from domain_setup_ok [OF assms(1), of r zmin zmax] assms(2)
  have hi: "zmax_mpi d = real_of_int (r * Nz_mpi d) * dz_adj d"
    and nzm: "Nz_mpi d = (Nz_cells + Nz_cells mod (mpi_size - 1)) div (mpi_size - 1)"
    and dzd: "dz_adj d = (zmax - zmin) / real_of_int (Nz_cells + Nz_cells mod (mpi_size - 1))"
    by auto
  from domain_setup_ok [OF assms(1), of "r + 1" zmin zmax] assms(3)
  have lo: "zmin_mpi d' = real_of_int ((r + 1 - 1) * Nz_mpi d') * dz_adj d'"
    and nzm': "Nz_mpi d' = (Nz_cells + Nz_cells mod (mpi_size - 1)) div (mpi_size - 1)"
    and dzd': "dz_adj d' = (zmax - zmin) / real_of_int (Nz_cells + Nz_cells mod (mpi_size - 1))"
    by auto
  show ?thesis
    by (simp add: hi lo nzm nzm' dzd dzd')
qed

lemma worker_cells_total:
  assumes "2 \<le> mpi_size"
  shows "(mpi_size - 1) * ((Nz_cells + Nz_cells mod (mpi_size - 1)) div (mpi_size - 1))
           = (Nz_cells + Nz_cells mod (mpi_size - 1))
               - (Nz_cells + Nz_cells mod (mpi_size - 1)) mod (mpi_size - 1)"
  by (simp add: minus_mod_eq_mult_div)

text \<open>
  C3. The slices of the worker ranks do not make up the domain. With 5 processes the
  adjustment \<open>Nz += Nz % (size-1)\<close> turns 141 cells into 142, which 4 does not divide:
  every worker gets \<open>142 // 4 = 35\<close> cells, 140 in all, and on the domain \<open>[0, 142]\<close> the
  slices end at 140 while rank 0 holds 142 cells up to 142. With 4 processes the counts
  add up (3 times 47), but the slices start at 0 and not at \<open>zmin\<close>: on the domain
  \<open>[141, 282]\<close> they cover \<open>[0, 141]\<close>.
\<close>

theorem worker_slices_miss_domain:
  "worker_grids 5 0 142 =
     [Inr \<lparr>grid_zmin = 0, grid_zmax = 35, grid_Nz = 35\<rparr>,
      Inr \<lparr>grid_zmin = 35, grid_zmax = 70, grid_Nz = 35\<rparr>,
      Inr \<lparr>grid_zmin = 70, grid_zmax = 105, grid_Nz = 35\<rparr>,
      Inr \<lparr>grid_zmin = 105, grid_zmax = 140, grid_Nz = 35\<rparr>]
   \<and> rank_grid 5 0 0 142 = Inr \<lparr>grid_zmin = 0, grid_zmax = 142, grid_Nz = 142\<rparr>
   \<and> worker_grids 4 141 282 =
     [Inr \<lparr>grid_zmin = 0, grid_zmax = 47, grid_Nz = 47\<rparr>,
      Inr \<lparr>grid_zmin = 47, grid_zmax = 94, grid_Nz = 47\<rparr>,
      Inr \<lparr>grid_zmin = 94, grid_zmax = 141, grid_Nz = 47\<rparr>]
   \<and> rank_grid 4 0 141 282 = Inr \<lparr>grid_zmin = 141, grid_zmax = 282, grid_Nz = 141\<rparr>"
proof -
  have five: "[1..5 - 1] = [1, 2, 3, (4::int)]"
    by (simp add: upto.simps)
  have four: "[1..4 - 1] = [1, 2, (3::int)]"
    by (simp add: upto.simps)
  show ?thesis
    unfolding worker_grids_def five four
    by (simp add: rank_grid_def domain_setup_def py_mod_def py_truediv_def py_floordiv_def
        linspace_def Nz_cells_def Let_def)
qed


section \<open>Time loop: results\<close>

lemma py_truediv_float:
  "py_truediv a b = Inr y \<Longrightarrow> is_float y"
  by (auto simp: py_truediv_def split: if_splits)

lemma compute_Nt_float:
  "compute_Nt dt wakelength ti v z_max z_min = Inr y \<Longrightarrow> is_float y"
  by (auto simp: compute_Nt_def split: sum.splits dest: py_truediv_float)

lemma py_range_float:
  "is_float y \<Longrightarrow> py_range y = Inl TypeError"
  by (cases y) simp_all

lemma time_loop_log:
  "snd (time_loop b one_step dt zmin z ns (s, calls)) =
     calls @ concat (map (\<lambda>n. [Update_mpi (real_of_int n * dt)
                                  (beam_current b (real_of_int n * dt) zmin z), One_step]) ns)"
proof (induction ns arbitrary: s calls)
  case Nil
  show ?case by simp
next
  case (Cons n ns)
  show ?case
    by (simp add: Let_def Cons.IH update_mpi_def)
qed

lemma run_time_loop_stops:
  "\<exists>e. run_time_loop b one_step dt wakelength ti v z_max z_min zmin z s = (Some e, s, [])"
proof (cases "compute_Nt dt wakelength ti v z_max z_min")
  case (Inl e)
  then show ?thesis
    by (simp add: run_time_loop_def)
next
  case (Inr y)
  then have "py_range y = Inl TypeError"
    by (intro py_range_float compute_Nt_float)
  with Inr show ?thesis
    by (simp add: run_time_loop_def)
qed

text \<open>
  C5. Whatever numbers the solver and the wake object hold, the run of lines 151 to 160
  ends in an exception with the solver state untouched and no call made: the loop body
  is never entered. When \<open>solver.dt\<close> and \<open>wake.v\<close> are not zero (so that the two
  divisions return), \<open>Nt\<close> is a float and the exception is the TypeError of
  \<open>range(Nt)\<close>.
\<close>

theorem Nt_float_range_raises:
  "(\<exists>e. run_time_loop b one_step dt wakelength ti v z_max z_min zmin z s = (Some e, s, []))
   \<and> (to_float dt \<noteq> 0 \<and> to_float v \<noteq> 0 \<longrightarrow>
        (\<exists>x. compute_Nt dt wakelength ti v z_max z_min = Inr (PyFloat x)
             \<and> py_range (PyFloat x) = Inl TypeError)
        \<and> run_time_loop b one_step dt wakelength ti v z_max z_min zmin z s
             = (Some TypeError, s, []))"
proof -
  have stops: "\<exists>e. run_time_loop b one_step dt wakelength ti v z_max z_min zmin z s
                 = (Some e, s, [])"
    by (rule run_time_loop_stops)
  have float: "(\<exists>x. compute_Nt dt wakelength ti v z_max z_min = Inr (PyFloat x)
             \<and> py_range (PyFloat x) = Inl TypeError)
        \<and> run_time_loop b one_step dt wakelength ti v z_max z_min zmin z s
             = (Some TypeError, s, [])"
    if nz: "to_float dt \<noteq> 0" "to_float v \<noteq> 0"
    using nz by (simp add: run_time_loop_def compute_Nt_def py_truediv_def)
  show ?thesis
    using stops float by blast
qed

theorem Nt_float_range_raises_witness:
  "compute_Nt (PyFloat 2) (PyInt 10) (PyFloat 1) (PyFloat 4) (PyFloat 3) (PyFloat 1)
     = Inr (PyFloat (2 :: real))
   \<and> run_time_loop \<lparr>beam_q = 1, beam_sigmaz = 1, beam_beta = 1, beam_xsource = 0, beam_ysource = 0\<rparr>
        (\<lambda>s. s\<lparr>step_count := Suc (step_count s)\<rparr>)
        (PyFloat 2) (PyInt 10) (PyFloat 1) (PyFloat 4) (PyFloat 3) (PyFloat 1) 0 [0, 1]
        \<lparr>step_count = 0, elapsed = 0, Jz_line = []\<rparr>
       = (Some TypeError, \<lparr>step_count = 0, elapsed = 0, Jz_line = []\<rparr>, [])"
  using Nt_float_range_raises [where dt = "PyFloat 2" and wakelength = "PyInt 10"
      and ti = "PyFloat 1" and v = "PyFloat 4" and z_max = "PyFloat 3" and z_min = "PyFloat 1"
      and b = "\<lparr>beam_q = 1, beam_sigmaz = 1, beam_beta = 1, beam_xsource = 0, beam_ysource = 0\<rparr>"
      and one_step = "\<lambda>s. s\<lparr>step_count := Suc (step_count s)\<rparr>"
      and zmin = 0 and z = "[0, 1]"
      and s = "\<lparr>step_count = 0, elapsed = 0, Jz_line = []\<rparr>"]
  by (simp add: compute_Nt_def py_truediv_def)

text \<open>
  C4. No exchange of boundary slices is among the calls of the time loop, for any
  list of iterations the loop is run over (and so between no two steps), nor among the
  calls of the whole run of lines 151 to 160.
\<close>

theorem time_loop_never_exchanges:
  "Exchange_slices \<notin> set (snd (time_loop b one_step dt zmin z ns (s, [])))
   \<and> Exchange_slices \<notin>
       set (snd (snd (run_time_loop b one_step dt' wakelength ti v z_max z_min zmin z s)))"
proof -
  have loop: "Exchange_slices \<notin> set (snd (time_loop b one_step dt zmin z ns (s, [])))"
    by (auto simp: time_loop_log)
  obtain e where "run_time_loop b one_step dt' wakelength ti v z_max z_min zmin z s
                    = (Some e, s, [])"
    using run_time_loop_stops by blast
  then show ?thesis
    using loop by simp
qed






section \<open>The grids of the cube scripts: results\<close>

lemma cube_cell_sizes:
  "cube_dx = 1 / 25" "cube_dy = 1 / 25" "cube_dz = 1 / 25"
  by (simp_all add: cube_dx_def cube_dy_def cube_dz_def cube_L_def cube_N_def)

lemma cube_bounds:
  "cube_xmin = - (12 / 25)" "cube_xmax = 13 / 25"
  "cube_ymin = - (12 / 25)" "cube_ymax = 13 / 25"
  "cube_zmin = - (12 / 25)" "cube_zmax = 13 / 25"
  by (simp_all add: cube_xmin_def cube_xmax_def cube_ymin_def cube_ymax_def cube_zmin_def
      cube_zmax_def cube_L_def cube_cell_sizes)

lemma noeb_loop_grids:
  "env_gridFIT (noeb_loop stepFIT stepFDTD n env) = env_gridFIT env
   \<and> env_tgridFIT (noeb_loop stepFIT stepFDTD n env) = env_tgridFIT env"
  by (induction n arbitrary: env) simp_all

lemma noeb_loop_solverFIT:
  "env_solverFIT (noeb_loop stepFIT stepFDTD n env) = (stepFIT ^^ n) (env_solverFIT env)"
  by (induction n arbitrary: env) (simp_all add: funpow_swap1)

text \<open>
  C7. In script\_noeb\_fit.py the dual grid is built once: it is the second grid the
  FIT solver is constructed from, and it is the same grid after the 50 iterations of the
  loop, whatever the solvers do in their steps. It has 25 cells per axis and the empty
  conductor assembly, as the primary grid has. The primary grid spans
  \<open>[-12/25, 13/25]\<close> on each axis with cells of size \<open>1/25\<close>; each bound of the dual
  grid is the primary grid's bound plus \<open>1/50\<close>, half of that cell size, so the dual
  grid spans \<open>[-23/50, 27/50]\<close>.
\<close>

theorem dual_grid_half_cell_shift:
  "env_tgridFIT (noeb_script a a' a'' newFIT newFDTD seedFIT seedFDTD stepFIT stepFDTD)
     = tgridFIT a'
   \<and> env_gridFIT (noeb_script a a' a'' newFIT newFDTD seedFIT seedFDTD stepFIT stepFDTD)
     = gridFIT a
   \<and> env_solverFIT (noeb_script a a' a'' newFIT newFDTD seedFIT seedFDTD stepFIT stepFDTD)
     = (stepFIT ^^ 50) (seedFIT (newFIT (gridFIT a) (tgridFIT a')))
   \<and> grid_Nx (gridFIT a) = 25 \<and> grid_Ny (gridFIT a) = 25 \<and> grid_Nzc (gridFIT a) = 25
   \<and> grid_Nx (tgridFIT a') = 25 \<and> grid_Ny (tgridFIT a') = 25 \<and> grid_Nzc (tgridFIT a') = 25
   \<and> grid_conductors (gridFIT a) = noConductor
   \<and> grid_conductors (tgridFIT a') = noConductor
   \<and> cell_x (gridFIT a) = 1 / 25 \<and> cell_y (gridFIT a) = 1 / 25 \<and> cell_z (gridFIT a) = 1 / 25
   \<and> grid_xmin (gridFIT a) = - (12 / 25) \<and> grid_xmax (gridFIT a) = 13 / 25
   \<and> grid_ymin (gridFIT a) = - (12 / 25) \<and> grid_ymax (gridFIT a) = 13 / 25
   \<and> grid_zlo (gridFIT a) = - (12 / 25) \<and> grid_zhi (gridFIT a) = 13 / 25
   \<and> grid_xmin (tgridFIT a') = - (23 / 50) \<and> grid_xmax (tgridFIT a') = 27 / 50
   \<and> grid_ymin (tgridFIT a') = - (23 / 50) \<and> grid_ymax (tgridFIT a') = 27 / 50
   \<and> grid_zlo (tgridFIT a') = - (23 / 50) \<and> grid_zhi (tgridFIT a') = 27 / 50
   \<and> grid_xmin (tgridFIT a') = grid_xmin (gridFIT a) + cell_x (gridFIT a) / 2
   \<and> grid_xmax (tgridFIT a') = grid_xmax (gridFIT a) + cell_x (gridFIT a) / 2
   \<and> grid_ymin (tgridFIT a') = grid_ymin (gridFIT a) + cell_y (gridFIT a) / 2
   \<and> grid_ymax (tgridFIT a') = grid_ymax (gridFIT a) + cell_y (gridFIT a) / 2
   \<and> grid_zlo (tgridFIT a') = grid_zlo (gridFIT a) + cell_z (gridFIT a) / 2
   \<and> grid_zhi (tgridFIT a') = grid_zhi (gridFIT a) + cell_z (gridFIT a) / 2"
proof -
  have env: "env_tgridFIT (noeb_script a a' a'' newFIT newFDTD seedFIT seedFDTD stepFIT stepFDTD)
               = tgridFIT a'"
    "env_gridFIT (noeb_script a a' a'' newFIT newFDTD seedFIT seedFDTD stepFIT stepFDTD)
               = gridFIT a"
    "env_solverFIT (noeb_script a a' a'' newFIT newFDTD seedFIT seedFDTD stepFIT stepFDTD)
               = (stepFIT ^^ 50) (seedFIT (newFIT (gridFIT a) (tgridFIT a')))"
    by (simp_all add: noeb_script_def noeb_loop_grids noeb_loop_solverFIT noeb_setup_def
        Let_def noeb_Nt_def)
  have cells: "cell_x (gridFIT a) = 1 / 25" "cell_y (gridFIT a) = 1 / 25"
    "cell_z (gridFIT a) = 1 / 25"
    by (simp_all add: cell_x_def cell_y_def cell_z_def gridFIT_def Grid3D_def cube_bounds
        cube_N_def)
  have rest: "grid_Nx (gridFIT a) = 25 \<and> grid_Ny (gridFIT a) = 25 \<and> grid_Nzc (gridFIT a) = 25
   \<and> grid_Nx (tgridFIT a') = 25 \<and> grid_Ny (tgridFIT a') = 25 \<and> grid_Nzc (tgridFIT a') = 25
   \<and> grid_conductors (gridFIT a) = noConductor
   \<and> grid_conductors (tgridFIT a') = noConductor
   \<and> grid_xmin (gridFIT a) = - (12 / 25) \<and> grid_xmax (gridFIT a) = 13 / 25
   \<and> grid_ymin (gridFIT a) = - (12 / 25) \<and> grid_ymax (gridFIT a) = 13 / 25
   \<and> grid_zlo (gridFIT a) = - (12 / 25) \<and> grid_zhi (gridFIT a) = 13 / 25
   \<and> grid_xmin (tgridFIT a') = - (23 / 50) \<and> grid_xmax (tgridFIT a') = 27 / 50
   \<and> grid_ymin (tgridFIT a') = - (23 / 50) \<and> grid_ymax (tgridFIT a') = 27 / 50
   \<and> grid_zlo (tgridFIT a') = - (23 / 50) \<and> grid_zhi (tgridFIT a') = 27 / 50"
    by (simp add: gridFIT_def tgridFIT_def Grid3D_def cube_bounds cube_cell_sizes cube_N_def)
  show ?thesis
    unfolding env cells using rest by simp
qed

lemma const_array_nth:
  assumes "in_shape a i j k"
  shows "times_scalar (times_scalar (ones_like a) c) d ! i ! j ! k = c * d"
  using assms by (simp add: in_shape_def times_scalar_def ones_like_def)

lemma const_array_shape:
  "shape (times_scalar (times_scalar (ones_like a) c) d) = shape a"
  by (simp add: shape_def times_scalar_def ones_like_def)

text \<open>
  C6. After the overwriting, whatever the constructor had put into the three arrays,
  each keeps its shape and every entry of \<open>Sxy\<close> is \<open>dx * dy\<close>, every entry of \<open>Szx\<close>
  is \<open>dx * dz\<close> and every entry of \<open>Syz\<close> is \<open>dz * dy\<close>.
\<close>

theorem fdtd_face_areas_nominal:
  "shape (grid_Sxy (overwrite_areas (gridFDTD a))) = shape (fst a)
   \<and> shape (grid_Szx (overwrite_areas (gridFDTD a))) = shape (fst (snd a))
   \<and> shape (grid_Syz (overwrite_areas (gridFDTD a))) = shape (snd (snd a))
   \<and> (in_shape (fst a) i j k \<longrightarrow>
        grid_Sxy (overwrite_areas (gridFDTD a)) ! i ! j ! k = cube_dx * cube_dy)
   \<and> (in_shape (fst (snd a)) i j k \<longrightarrow>
        grid_Szx (overwrite_areas (gridFDTD a)) ! i ! j ! k = cube_dx * cube_dz)
   \<and> (in_shape (snd (snd a)) i j k \<longrightarrow>
        grid_Syz (overwrite_areas (gridFDTD a)) ! i ! j ! k = cube_dz * cube_dy)"
  by (simp add: overwrite_areas_def gridFDTD_def Grid3D_def Let_def const_array_nth
      const_array_shape)

theorem fdtd_face_areas_nominal_witness:
  "in_shape [[[0, 2]]] 0 0 1
   \<and> grid_Sxy (overwrite_areas (gridFDTD ([[[0, 2]]], [[[0, 2]]], [[[0, 2]]]))) ! 0 ! 0 ! 1
       = cube_dx * cube_dy
   \<and> grid_Szx (overwrite_areas (gridFDTD ([[[0, 2]]], [[[0, 2]]], [[[0, 2]]]))) ! 0 ! 0 ! 1
       = cube_dx * cube_dz
   \<and> grid_Syz (overwrite_areas (gridFDTD ([[[0, 2]]], [[[0, 2]]], [[[0, 2]]]))) ! 0 ! 0 ! 1
       = cube_dz * cube_dy"
  using fdtd_face_areas_nominal [where a = "([[[0, 2]]], [[[0, 2]]], [[[0, 2]]])"
      and i = 0 and j = 0 and k = 1]
  by (simp add: in_shape_def)

section \<open>The field container: results\<close>

text \<open>
  C9. An access to a component of a field at a coordinate outside the index range, or
  with a label other than \<open>'x'\<close>, \<open>'y'\<close>, \<open>'z'\<close>, returns an error, for reading and
  for writing (so no value is returned and no field is written); an access inside the
  range with a known label reads or writes exactly the addressed entry.
\<close>

theorem field_access_errors:
  "((\<not> in_range f p \<or> axis_of_label l = None) \<longrightarrow>
      (\<exists>e. getitem f p l = Inl e) \<and> (\<exists>e. setitem f p l v = Inl e))
   \<and> (in_range f p \<and> axis_of_label l = Some a \<longrightarrow>
        getitem f p l = Inr (component f a p)
        \<and> setitem f p l v = Inr (set_component f a p v))"
  by (auto simp: getitem_def setitem_def split: option.splits)

theorem field_access_errors_witness:
  "\<not> in_range (Field3D 25 25 25) (25, 0, 0)
   \<and> getitem (Field3D 25 25 25) (25, 0, 0) ''z'' = Inl IndexError
   \<and> setitem (Field3D 25 25 25) (25, 0, 0) ''z'' 1 = Inl IndexError
   \<and> in_range (Field3D 25 25 25) (12, 12, 12) \<and> axis_of_label ''z'' = Some AxisZ
   \<and> getitem (Field3D 25 25 25) (12, 12, 12) ''z'' = Inr 0"
  using field_access_errors [where f = "Field3D 25 25 25" and p = "(25, 0, 0)" and l = "''z''"
      and v = 1 and a = AxisZ]
    field_access_errors [where f = "Field3D 25 25 25" and p = "(12, 12, 12)" and l = "''z''"
      and v = 1 and a = AxisZ]
  by (simp add: Field3D_def axis_of_label_def getitem_def setitem_def)


section \<open>The solvers: results\<close>

lemma circ_uncut:
  assumes "dx \<noteq> 0" "dy \<noteq> 0" "dz \<noteq> 0"
  shows "circ_x (uncut_geometry dx dy dz) e p / geo_Syz (uncut_geometry dx dy dz) p
           = curl_x dx dy dz e p"
    and "circ_y (uncut_geometry dx dy dz) e p / geo_Szx (uncut_geometry dx dy dz) p
           = curl_y dx dy dz e p"
    and "circ_z (uncut_geometry dx dy dz) e p / geo_Sxy (uncut_geometry dx dy dz) p
           = curl_z dx dy dz e p"
  using assms by (cases p; simp add: uncut_geometry_def field_simps)+

lemma dual_circ_uncut:
  assumes "dx \<noteq> 0" "dy \<noteq> 0" "dz \<noteq> 0"
  shows "dual_circ_x (uncut_geometry dx dy dz) h p / geo_tSyz (uncut_geometry dx dy dz) p
           = back_curl_x dx dy dz h p"
    and "dual_circ_y (uncut_geometry dx dy dz) h p / geo_tSzx (uncut_geometry dx dy dz) p
           = back_curl_y dx dy dz h p"
    and "dual_circ_z (uncut_geometry dx dy dz) h p / geo_tSxy (uncut_geometry dx dy dz) p
           = back_curl_z dx dy dz h p"
  using assms by (cases p; simp add: uncut_geometry_def field_simps)+

lemma fit_update_H_uncut:
  assumes "dx \<noteq> 0" "dy \<noteq> 0" "dz \<noteq> 0"
  shows "fit_update_H (uncut_geometry dx dy dz) s = fdtd_update_H dx dy dz s"
  unfolding fit_update_H_def fdtd_update_H_def Let_def
  by (simp only: circ_uncut [OF assms])

lemma fit_update_E_uncut:
  assumes "dx \<noteq> 0" "dy \<noteq> 0" "dz \<noteq> 0"
  shows "fit_update_E (uncut_geometry dx dy dz) s = fdtd_update_E dx dy dz s"
  unfolding fit_update_E_def fdtd_update_E_def Let_def
  by (simp only: dual_circ_uncut [OF assms])

lemma fit_one_step_uncut:
  assumes "dx \<noteq> 0" "dy \<noteq> 0" "dz \<noteq> 0"
  shows "fit_one_step (uncut_geometry dx dy dz) s = fdtd_one_step dx dy dz s"
  unfolding fit_one_step_def fdtd_one_step_def Let_def
  by (simp only: fit_update_H_uncut [OF assms] fit_update_E_uncut [OF assms])

lemma run_uncut:
  assumes "dx \<noteq> 0" "dy \<noteq> 0" "dz \<noteq> 0"
  shows "run_steps (fit_one_step (uncut_geometry dx dy dz)) n s
           = run_steps (fdtd_one_step dx dy dz) n s"
  by (induction n arbitrary: s) (simp_all add: fit_one_step_uncut [OF assms])


text \<open>
  C1. On a grid without conductors (every edge and face with its nominal size, cell
  sizes not zero) the FIT solver and the FDTD solver, started from the same state (the
  same fields, time step and material), are in the same state after any number \<open>n\<close> of
  steps: the same E, H, J and time. The arithmetic is that of the reals, where the two
  agree exactly.
\<close>

theorem fit_reproduces_fdtd:
  assumes "dx \<noteq> 0" "dy \<noteq> 0" "dz \<noteq> 0"
  shows "run_steps (fit_one_step (uncut_geometry dx dy dz)) n s
           = run_steps (fdtd_one_step dx dy dz) n s
         \<and> sol_E (run_steps (fit_one_step (uncut_geometry dx dy dz)) n s)
           = sol_E (run_steps (fdtd_one_step dx dy dz) n s)
         \<and> sol_H (run_steps (fit_one_step (uncut_geometry dx dy dz)) n s)
           = sol_H (run_steps (fdtd_one_step dx dy dz) n s)"
proof -
  have "run_steps (fit_one_step (uncut_geometry dx dy dz)) n s
          = run_steps (fdtd_one_step dx dy dz) n s"
    by (rule run_uncut [OF assms])
  then show ?thesis
    by simp
qed


theorem fit_reproduces_fdtd_witness:
  "run_steps (fit_one_step (uncut_geometry (1 / 25) (1 / 25) (1 / 25))) 50
       ((SolverFIT3D 1 1 1)
          \<lparr>sol_E := (Field3D 25 25 25)\<lparr>fld_z := (\<lambda>p. if p = (12, 6, 6) then 1 else 0)\<rparr>\<rparr>)
     = run_steps (fdtd_one_step (1 / 25) (1 / 25) (1 / 25)) 50
       ((SolverFIT3D 1 1 1)
          \<lparr>sol_E := (Field3D 25 25 25)\<lparr>fld_z := (\<lambda>p. if p = (12, 6, 6) then 1 else 0)\<rparr>\<rparr>)"
  using fit_reproduces_fdtd [where dx = "1 / 25" and dy = "1 / 25" and dz = "1 / 25" and n = 50
      and s = "(SolverFIT3D 1 1 1)
          \<lparr>sol_E := (Field3D 25 25 25)\<lparr>fld_z := (\<lambda>p. if p = (12, 6, 6) then 1 else 0)\<rparr>\<rparr>"]
  by simp

end
